theory Spec2Isabelle
  imports Main "HOL-Library.Sublist"
begin

section \<open>The process-manager configuration of wiigii-rank-finder\<close>

text \<open>
  The repository consists of one file, \<^verbatim>\<open>ecosystem.config.js\<close>, which assigns an object
  literal to \<^verbatim>\<open>module.exports\<close>. The file has no functions: what can be verified is the
  shape and the content of that literal. The literal is embedded as a value of a small
  datatype of JavaScript values, with the properties of an object kept in the order in
  which the literal writes them.
\<close>

subsection \<open>JavaScript values\<close>

datatype jsval =
    JStr string
  | JArr "jsval list"
  | JObj "(string \<times> jsval) list"

text \<open>The properties an object literal writes down; a string or an array has none.\<close>

fun props :: "jsval \<Rightarrow> (string \<times> jsval) list" where
  "props (JObj kvs) = kvs"
| "props (JStr s) = []"
| "props (JArr vs) = []"

text \<open>
  The own keys of the object, each once, in the order of first appearance
  (what \<^verbatim>\<open>Object.keys\<close> returns for string keys).
\<close>

definition own_keys :: "jsval \<Rightarrow> string list" where
  "own_keys v = rev (remdups (rev (map fst (props v))))"

text \<open>
  Property access \<^verbatim>\<open>v[k]\<close>: \<open>None\<close> stands for \<^verbatim>\<open>undefined\<close>. Were a key written
  twice in a literal, the later value would be the one read, hence the \<open>rev\<close>.
\<close>

definition get_prop :: "string \<Rightarrow> jsval \<Rightarrow> jsval option" where
  "get_prop k v = map_of (rev (props v)) k"

text \<open>The property \<open>k\<close> of \<open>v\<close> when it is present and a string.\<close>

definition str_prop :: "string \<Rightarrow> jsval \<Rightarrow> string option" where
  "str_prop k v = (case get_prop k v of Some (JStr s) \<Rightarrow> Some s | _ \<Rightarrow> None)"

text \<open>The elements of an array; any other value has none.\<close>

fun elems :: "jsval \<Rightarrow> jsval list" where
  "elems (JArr vs) = vs"
| "elems (JStr s) = []"
| "elems (JObj kvs) = []"

subsection \<open>The exported object\<close>

text \<open>
  \<^verbatim>\<open>
  module.exports = {
    apps: [
      { name: "wiigii-hub", script: "./app.py", interpreter: "python", },
      { name: "wiigii-tunnel", script: "./cloudflared.exe",
        args: "tunnel --url http://127.0.0.1:5000", interpreter: "none", },
    ],
  };
  \<close>
\<close>

definition module_exports :: jsval where
  "module_exports =
     JObj [
       (''apps'', JArr [
          JObj [
            (''name'', JStr ''wiigii-hub''),
            (''script'', JStr ''./app.py''),
            (''interpreter'', JStr ''python'')
          ],
          JObj [
            (''name'', JStr ''wiigii-tunnel''),
            (''script'', JStr ''./cloudflared.exe''),
            (''args'', JStr ''tunnel --url http://127.0.0.1:5000''),
            (''interpreter'', JStr ''none'')
          ]
       ])
     ]"

text \<open>The list a consumer reads as \<^verbatim>\<open>require("./ecosystem.config.js").apps\<close>.\<close>

definition apps :: "jsval list" where
  "apps = (case get_prop ''apps'' module_exports of Some v \<Rightarrow> elems v | None \<Rightarrow> [])"

subsection \<open>Evaluating the accessors on the literal\<close>

lemma apps_eq:
  "apps =
     [JObj [(''name'', JStr ''wiigii-hub''),
            (''script'', JStr ''./app.py''),
            (''interpreter'', JStr ''python'')],
      JObj [(''name'', JStr ''wiigii-tunnel''),
            (''script'', JStr ''./cloudflared.exe''),
            (''args'', JStr ''tunnel --url http://127.0.0.1:5000''),
            (''interpreter'', JStr ''none'')]]"
  by (simp add: apps_def get_prop_def module_exports_def)

lemma hub_in_apps: "apps ! 0 \<in> set apps"
  by (simp add: apps_eq)

lemma tunnel_in_apps: "apps ! 1 \<in> set apps"
  by (simp add: apps_eq)

lemma hub_neq_tunnel: "apps ! 0 \<noteq> apps ! 1"
  by (simp add: apps_eq)

lemma hub_fields:
  "str_prop ''name'' (apps ! 0) = Some ''wiigii-hub''"
  "str_prop ''script'' (apps ! 0) = Some ''./app.py''"
  "get_prop ''args'' (apps ! 0) = None"
  "str_prop ''interpreter'' (apps ! 0) = Some ''python''"
  by (simp_all add: apps_eq str_prop_def get_prop_def)

lemma tunnel_fields:
  "str_prop ''name'' (apps ! 1) = Some ''wiigii-tunnel''"
  "str_prop ''script'' (apps ! 1) = Some ''./cloudflared.exe''"
  "get_prop ''args'' (apps ! 1) = Some (JStr ''tunnel --url http://127.0.0.1:5000'')"
  "str_prop ''interpreter'' (apps ! 1) = Some ''none''"
  by (simp_all add: apps_eq str_prop_def get_prop_def)

text \<open>
  What the list itself says about the interpreter value \<open>none\<close>: the entries carrying it
  are those named \<open>wiigii-tunnel\<close>. How a process manager then starts such an entry is
  outside this file.
\<close>

lemma none_interpreter_iff_tunnel:
  "\<forall>e \<in> set apps.
     (str_prop ''interpreter'' e = Some ''none'') = (str_prop ''name'' e = Some ''wiigii-tunnel'')"
  by (simp add: apps_eq str_prop_def get_prop_def)

text \<open>
  What the list itself says about the entry named \<open>wiigii-hub\<close>: there is one, and an
  entry with that name has no \<open>args\<close> field, the script \<open>./app.py\<close> and the interpreter
  \<open>python\<close>. How a process manager then starts that entry is outside this file.
\<close>

lemma hub_entry_fields:
  "(\<exists>e \<in> set apps. str_prop ''name'' e = Some ''wiigii-hub'') \<and>
   (\<forall>e \<in> set apps. str_prop ''name'' e = Some ''wiigii-hub'' \<longrightarrow>
      get_prop ''args'' e = None \<and>
      str_prop ''script'' e = Some ''./app.py'' \<and>
      str_prop ''interpreter'' e = Some ''python'')"
proof (rule conjI)
  show "\<exists>e \<in> set apps. str_prop ''name'' e = Some ''wiigii-hub''"
    using hub_fields(1) hub_in_apps by (rule bexI)
  show "\<forall>e \<in> set apps. str_prop ''name'' e = Some ''wiigii-hub'' \<longrightarrow>
      get_prop ''args'' e = None \<and>
      str_prop ''script'' e = Some ''./app.py'' \<and>
      str_prop ''interpreter'' e = Some ''python''"
    by (simp add: apps_eq str_prop_def get_prop_def)
qed

lemma exe_suffix: "suffix ''.exe'' ''./cloudflared.exe''"
  unfolding suffix_def by (rule exI [of _ "''./cloudflared''"]) simp

subsection \<open>The claims\<close>

text \<open>
  C1. The exported \<open>apps\<close> list contains exactly two entries.
\<close>

theorem apps_has_two_entries: "length apps = 2"
  by (simp add: apps_eq)

text \<open>
  C2. The \<open>name\<close> is unique within the list: the names read off the list, position by
  position, are pairwise different, and any two distinct entries of the list carry
  names that are different strings.
\<close>

theorem apps_names_unique:
  "distinct (map (str_prop ''name'') apps) \<and>
   (\<forall>e1 \<in> set apps. \<forall>e2 \<in> set apps. e1 \<noteq> e2 \<longrightarrow>
      (\<exists>n1 n2. str_prop ''name'' e1 = Some n1 \<and> str_prop ''name'' e2 = Some n2 \<and> n1 \<noteq> n2))"
proof (rule conjI)
  show "distinct (map (str_prop ''name'') apps)"
    by (simp add: apps_eq str_prop_def get_prop_def)
next
  show "\<forall>e1 \<in> set apps. \<forall>e2 \<in> set apps. e1 \<noteq> e2 \<longrightarrow>
      (\<exists>n1 n2. str_prop ''name'' e1 = Some n1 \<and> str_prop ''name'' e2 = Some n2 \<and> n1 \<noteq> n2)"
    by (simp add: apps_eq str_prop_def get_prop_def)
qed

theorem apps_names_unique_witness:
  "apps ! 0 \<in> set apps \<and> apps ! 1 \<in> set apps \<and> apps ! 0 \<noteq> apps ! 1 \<and>
   (\<exists>n1 n2. str_prop ''name'' (apps ! 0) = Some n1 \<and>
            str_prop ''name'' (apps ! 1) = Some n2 \<and> n1 \<noteq> n2)"
proof -
  note r = apps_names_unique [THEN conjunct2, rule_format,
      OF hub_in_apps tunnel_in_apps hub_neq_tunnel]
  show ?thesis
    by (intro conjI hub_in_apps tunnel_in_apps hub_neq_tunnel r)
qed

text \<open>
  C3. Every entry of the list has a \<open>name\<close> field whose value is a non-empty string.
\<close>

theorem apps_name_nonempty:
  "\<forall>e \<in> set apps. \<exists>n. str_prop ''name'' e = Some n \<and> n \<noteq> []"
  by (simp add: apps_eq str_prop_def get_prop_def)

theorem apps_name_nonempty_witness:
  "apps ! 1 \<in> set apps \<and> (\<exists>n. str_prop ''name'' (apps ! 1) = Some n \<and> n \<noteq> [])"
  using tunnel_in_apps bspec [OF apps_name_nonempty tunnel_in_apps] by (rule conjI)

text \<open>
  C4. Every entry of the list has a \<open>script\<close> field whose value is a non-empty
  (path) string.
\<close>

theorem apps_script_nonempty:
  "\<forall>e \<in> set apps. \<exists>p. str_prop ''script'' e = Some p \<and> p \<noteq> []"
  by (simp add: apps_eq str_prop_def get_prop_def)

theorem apps_script_nonempty_witness:
  "apps ! 0 \<in> set apps \<and> (\<exists>p. str_prop ''script'' (apps ! 0) = Some p \<and> p \<noteq> [])"
  using hub_in_apps bspec [OF apps_script_nonempty hub_in_apps] by (rule conjI)

text \<open>
  C6. Every entry of the list defines \<open>name\<close>, \<open>script\<close> and \<open>interpreter\<close>, each a
  string, and the interpreter is either the runtime name \<open>python\<close> or the
  direct-execution sentinel \<open>none\<close>.
\<close>

theorem apps_fields_defined:
  "\<forall>e \<in> set apps. \<exists>n p i.
      str_prop ''name'' e = Some n \<and> str_prop ''script'' e = Some p \<and>
      str_prop ''interpreter'' e = Some i \<and> (i = ''python'' \<or> i = ''none'')"
  by (simp add: apps_eq str_prop_def get_prop_def)

theorem apps_fields_defined_witness:
  "apps ! 0 \<in> set apps \<and>
   (\<exists>n p i. str_prop ''name'' (apps ! 0) = Some n \<and> str_prop ''script'' (apps ! 0) = Some p \<and>
      str_prop ''interpreter'' (apps ! 0) = Some i \<and> (i = ''python'' \<or> i = ''none''))"
  using hub_in_apps bspec [OF apps_fields_defined hub_in_apps] by (rule conjI)

text \<open>
  C7. The \<open>args\<close> field is optional: an entry of the list omits it; wherever it is
  present its value is a single string; and the entries that have it are exactly one,
  the entry named \<open>wiigii-tunnel\<close>, with the value
  \<open>tunnel --url http://127.0.0.1:5000\<close>.
\<close>

theorem apps_args_optional:
  "(\<exists>e \<in> set apps. get_prop ''args'' e = None) \<and>
   (\<forall>e \<in> set apps. \<forall>v. get_prop ''args'' e = Some v \<longrightarrow> (\<exists>s. v = JStr s)) \<and>
   map (\<lambda>e. (str_prop ''name'' e, get_prop ''args'' e))
       (filter (\<lambda>e. get_prop ''args'' e \<noteq> None) apps)
     = [(Some ''wiigii-tunnel'', Some (JStr ''tunnel --url http://127.0.0.1:5000''))]"
proof (intro conjI)
  show "\<exists>e \<in> set apps. get_prop ''args'' e = None"
    using hub_fields(3) hub_in_apps by (rule bexI)
  show "\<forall>e \<in> set apps. \<forall>v. get_prop ''args'' e = Some v \<longrightarrow> (\<exists>s. v = JStr s)"
    by (simp add: apps_eq get_prop_def)
  show "map (\<lambda>e. (str_prop ''name'' e, get_prop ''args'' e))
       (filter (\<lambda>e. get_prop ''args'' e \<noteq> None) apps)
     = [(Some ''wiigii-tunnel'', Some (JStr ''tunnel --url http://127.0.0.1:5000''))]"
    by (simp add: apps_eq str_prop_def get_prop_def)
qed

theorem apps_args_optional_witness:
  "apps ! 1 \<in> set apps \<and>
   get_prop ''args'' (apps ! 1) = Some (JStr ''tunnel --url http://127.0.0.1:5000'') \<and>
   (\<exists>s. JStr ''tunnel --url http://127.0.0.1:5000'' = JStr s)"
proof -
  note r = apps_args_optional [THEN conjunct2, THEN conjunct1, rule_format,
      OF tunnel_in_apps tunnel_fields(3)]
  show ?thesis
    by (intro conjI tunnel_in_apps tunnel_fields(3) r)
qed

text \<open>
  C8. The exported value is an object whose only key is \<open>apps\<close>, and the value of
  that key is the array of entries.
\<close>

theorem module_exports_only_apps:
  "(\<exists>kvs. module_exports = JObj kvs) \<and>
   own_keys module_exports = [''apps''] \<and>
   get_prop ''apps'' module_exports = Some (JArr apps)"
  by (simp add: module_exports_def own_keys_def get_prop_def apps_def)

text \<open>
  C10. Exactly one entry of the list has the interpreter \<open>none\<close>; the script of an
  entry with that interpreter ends in \<open>.exe\<close>; every other entry has the interpreter
  \<open>python\<close>.
\<close>

theorem one_sentinel_entry:
  "length (filter (\<lambda>e. str_prop ''interpreter'' e = Some ''none'') apps) = 1 \<and>
   (\<forall>e \<in> set apps. str_prop ''interpreter'' e = Some ''none'' \<longrightarrow>
      (\<exists>p. str_prop ''script'' e = Some p \<and> suffix ''.exe'' p)) \<and>
   (\<forall>e \<in> set apps. str_prop ''interpreter'' e \<noteq> Some ''none'' \<longrightarrow>
      str_prop ''interpreter'' e = Some ''python'')"
proof (intro conjI)
  show "length (filter (\<lambda>e. str_prop ''interpreter'' e = Some ''none'') apps) = 1"
    by (simp add: apps_eq str_prop_def get_prop_def)
  show "\<forall>e \<in> set apps. str_prop ''interpreter'' e = Some ''none'' \<longrightarrow>
      (\<exists>p. str_prop ''script'' e = Some p \<and> suffix ''.exe'' p)"
    using exe_suffix by (simp add: apps_eq str_prop_def get_prop_def)
  show "\<forall>e \<in> set apps. str_prop ''interpreter'' e \<noteq> Some ''none'' \<longrightarrow>
      str_prop ''interpreter'' e = Some ''python''"
    by (simp add: apps_eq str_prop_def get_prop_def)
qed

theorem one_sentinel_entry_witness:
  "(apps ! 1 \<in> set apps \<and> str_prop ''interpreter'' (apps ! 1) = Some ''none'' \<and>
    (\<exists>p. str_prop ''script'' (apps ! 1) = Some p \<and> suffix ''.exe'' p)) \<and>
   (apps ! 0 \<in> set apps \<and> str_prop ''interpreter'' (apps ! 0) \<noteq> Some ''none'' \<and>
    str_prop ''interpreter'' (apps ! 0) = Some ''python'')"
proof -
  have hub_not_none: "str_prop ''interpreter'' (apps ! 0) \<noteq> Some ''none''"
    by (simp add: hub_fields)
  note a = one_sentinel_entry [THEN conjunct2, THEN conjunct1, rule_format,
      OF tunnel_in_apps tunnel_fields(4)]
  note b = one_sentinel_entry [THEN conjunct2, THEN conjunct2, rule_format,
      OF hub_in_apps hub_not_none]
  show ?thesis
    by (intro conjI tunnel_in_apps tunnel_fields(4) a hub_in_apps hub_not_none b)
qed

end
